theory Spec2Isabelle
  imports Complex_Main "HOL-Library.Sublist"
begin

section \<open>JavaScript values\<close>

text \<open>
  A JavaScript string is a sequence of UTF-16 code units; a code unit is modelled by its
  number. Literals of the source are written \<open>str ''...''\<close>.
\<close>

type_synonym jsstring = "nat list"

definition str :: "string \<Rightarrow> jsstring" where
  "str s = map of_char s"

text \<open>
  A JavaScript number is a double: not-a-number, an infinity, or a finite value, which is a
  rational number. The comparisons of the handlers, with the constants 1 and 20, are
  exact on the rational value of a double; the sign of zero is not kept.
\<close>

datatype jsnum = NaN | PosInfinity | NegInfinity | Num rat

text \<open>
  The fields of \<open>req.body\<close> come from \<open>express.json()\<close>. The values of the model
  are the scalar JSON values and \<open>undefined\<close> (a key that is absent). A field that
  holds an array or an object is outside the model, and every statement below is about
  submissions of scalar fields: the conversion of an object to a string or a number can
  throw, and a handler that throws answers with status 500.
\<close>

datatype jsval = JUndefined | JNull | JBool bool | JNum jsnum | JStr jsstring

text \<open>\<open>!v\<close> is \<open>\<not> truthy v\<close>.\<close>

fun truthy :: "jsval \<Rightarrow> bool" where
  "truthy JUndefined = False"
| "truthy JNull = False"
| "truthy (JBool b) = b"
| "truthy (JNum NaN) = False"
| "truthy (JNum (Num r)) = (r \<noteq> 0)"
| "truthy (JNum PosInfinity) = True"
| "truthy (JNum NegInfinity) = True"
| "truthy (JStr s) = (s \<noteq> [])"

text \<open>\<open>typeof v === 'string'\<close>\<close>

fun is_string :: "jsval \<Rightarrow> bool" where
  "is_string (JStr s) = True"
| "is_string v = False"

text \<open>\<open>Number.isFinite\<close> on a number, and on any value (no coercion: only numbers pass).\<close>

fun isFinite :: "jsnum \<Rightarrow> bool" where
  "isFinite (Num r) = True"
| "isFinite n = False"

fun Number_isFinite :: "jsval \<Rightarrow> bool" where
  "Number_isFinite (JNum n) = isFinite n"
| "Number_isFinite v = False"

text \<open>The relational operators on numbers: every comparison with NaN is false.\<close>

fun js_lt :: "jsnum \<Rightarrow> jsnum \<Rightarrow> bool" where
  "js_lt NaN y = False"
| "js_lt x NaN = False"
| "js_lt (Num a) (Num b) = (a < b)"
| "js_lt (Num a) PosInfinity = True"
| "js_lt (Num a) NegInfinity = False"
| "js_lt NegInfinity NegInfinity = False"
| "js_lt NegInfinity y = True"
| "js_lt PosInfinity y = False"

definition js_gt :: "jsnum \<Rightarrow> jsnum \<Rightarrow> bool" where
  "js_gt x y = js_lt y x"

definition js_le :: "jsnum \<Rightarrow> jsnum \<Rightarrow> bool" where
  "js_le x y = (x \<noteq> NaN \<and> y \<noteq> NaN \<and> \<not> js_lt y x)"

definition js_ge :: "jsnum \<Rightarrow> jsnum \<Rightarrow> bool" where
  "js_ge x y = js_le y x"

subsection \<open>White space and \<open>String.prototype.trim\<close>\<close>

text \<open>
  The code units of the WhiteSpace and LineTerminator productions: what \<open>trim\<close> strips,
  what \<open>\s\<close> matches in a regular expression and what the conversion of a string to a
  number skips at both ends.
\<close>

definition is_ws :: "nat \<Rightarrow> bool" where
  "is_ws c = (c \<in> set [9, 10, 11, 12, 13, 32, 160, 5760, 8232, 8233, 8239, 8287, 12288, 65279]
              \<or> (8192 \<le> c \<and> c \<le> 8202))"

definition trim :: "jsstring \<Rightarrow> jsstring" where
  "trim s = rev (dropWhile is_ws (rev (dropWhile is_ws s)))"

subsection \<open>The conversion of a string to a number\<close>

definition is_digit :: "nat \<Rightarrow> bool" where
  "is_digit c = (48 \<le> c \<and> c \<le> 57)"

text \<open>The value of a digit in a base up to 16, if it is one.\<close>

definition digit_val :: "nat \<Rightarrow> nat \<Rightarrow> nat option" where
  "digit_val base c =
     (let v = (if 48 \<le> c \<and> c \<le> 57 then Some (c - 48)
               else if 97 \<le> c \<and> c \<le> 102 then Some (c - 87)
               else if 65 \<le> c \<and> c \<le> 70 then Some (c - 55)
               else None)
      in case v of None \<Rightarrow> None | Some d \<Rightarrow> if d < base then Some d else None)"

fun digits_val :: "nat \<Rightarrow> nat \<Rightarrow> jsstring \<Rightarrow> nat option" where
  "digits_val base acc [] = Some acc"
| "digits_val base acc (c # cs) =
     (case digit_val base c of None \<Rightarrow> None | Some d \<Rightarrow> digits_val base (acc * base + d) cs)"

text \<open>
  The value of a literal is its mathematical value rounded to the nearest double, ties to
  the even significand. A double has 53 significant bits above the exponent \<open>-1022\<close>
  and steps of \<open>2^-1074\<close> below it; a value that rounds to \<open>2^1024\<close> or more is
  an infinity.
\<close>

fun bit_length :: "nat \<Rightarrow> nat" where
  "bit_length n = (if n = 0 then 0 else Suc (bit_length (n div 2)))"

declare bit_length.simps [simp del]

text \<open>For a positive \<open>x\<close>, the exponent \<open>e\<close> with \<open>2^e \<le> x < 2^(e+1)\<close>.\<close>

definition floor_log2 :: "rat \<Rightarrow> int" where
  "floor_log2 x =
     (if 1 \<le> x then int (bit_length (nat \<lfloor>x\<rfloor>)) - 1
      else - int (bit_length (nat (\<lceil>1 / x\<rceil> - 1))))"

definition pow2 :: "int \<Rightarrow> rat" where
  "pow2 k = (if 0 \<le> k then 2 ^ nat k else 1 / 2 ^ nat (- k))"

definition round_half_even :: "rat \<Rightarrow> int" where
  "round_half_even x =
     (let f = \<lfloor>x\<rfloor>; d = x - of_int f
      in if d < 1 / 2 then f
         else if 1 / 2 < d then f + 1
         else if even f then f else f + 1)"

definition to_double :: "rat \<Rightarrow> jsnum" where
  "to_double x =
     (if x = 0 then Num 0
      else
        (let a = \<bar>x\<bar>;
             e = max (floor_log2 a) (- 1022);
             u = pow2 (e - 52);
             y = of_int (round_half_even (a / u)) * u
         in if 2 ^ 1024 \<le> y then (if x < 0 then NegInfinity else PosInfinity)
            else Num (if x < 0 then - y else y)))"

text \<open>A non-empty run of digits of the base, and nothing else.\<close>

definition integer_literal :: "nat \<Rightarrow> jsstring \<Rightarrow> jsnum" where
  "integer_literal base ds =
     (if ds = [] then NaN
      else case digits_val base 0 ds of None \<Rightarrow> NaN | Some n \<Rightarrow> to_double (of_nat n))"

text \<open>The exponent part: empty, or \<open>e\<close>/\<open>E\<close>, an optional sign and at least one digit.\<close>

definition exponent_part :: "jsstring \<Rightarrow> int option" where
  "exponent_part r =
     (case r of
        [] \<Rightarrow> Some 0
      | c # r1 \<Rightarrow>
          if c = 101 \<or> c = 69 then
            (let neg = (r1 \<noteq> [] \<and> hd r1 = 45);
                 ds = (if r1 \<noteq> [] \<and> (hd r1 = 43 \<or> hd r1 = 45) then tl r1 else r1)
             in if ds = [] then None
                else case digits_val 10 0 ds of
                       None \<Rightarrow> None
                     | Some n \<Rightarrow> Some (if neg then - int n else int n))
          else None)"

definition scale10 :: "rat \<Rightarrow> int \<Rightarrow> rat" where
  "scale10 m k = (if 0 \<le> k then m * 10 ^ nat k else m / 10 ^ nat (- k))"

text \<open>
  An unsigned decimal literal: digits with an optional fraction, or a fraction alone, and
  an optional exponent.
\<close>

definition unsigned_decimal :: "jsstring \<Rightarrow> jsnum" where
  "unsigned_decimal t =
     (let ip = takeWhile is_digit t;
          r1 = dropWhile is_digit t;
          dot = (r1 \<noteq> [] \<and> hd r1 = 46);
          fp = (if dot then takeWhile is_digit (tl r1) else []);
          r2 = (if dot then dropWhile is_digit (tl r1) else r1)
      in if ip = [] \<and> fp = [] then NaN
         else case (digits_val 10 0 (ip @ fp), exponent_part r2) of
                (Some m, Some e) \<Rightarrow> to_double (scale10 (of_nat m) (e - int (length fp)))
              | _ \<Rightarrow> NaN)"

fun js_neg :: "jsnum \<Rightarrow> jsnum" where
  "js_neg NaN = NaN"
| "js_neg PosInfinity = NegInfinity"
| "js_neg NegInfinity = PosInfinity"
| "js_neg (Num r) = Num (- r)"

definition decimal_literal :: "jsstring \<Rightarrow> jsnum" where
  "decimal_literal t =
     (let neg = (t \<noteq> [] \<and> hd t = 45);
          u = (if t \<noteq> [] \<and> (hd t = 43 \<or> hd t = 45) then tl t else t);
          v = (if u = str ''Infinity'' then PosInfinity else unsigned_decimal u)
      in if neg then js_neg v else v)"

definition StringToNumber :: "jsstring \<Rightarrow> jsnum" where
  "StringToNumber s =
     (let t = trim s
      in if t = [] then Num 0
         else if take 2 t = str ''0x'' \<or> take 2 t = str ''0X'' then integer_literal 16 (drop 2 t)
         else if take 2 t = str ''0o'' \<or> take 2 t = str ''0O'' then integer_literal 8 (drop 2 t)
         else if take 2 t = str ''0b'' \<or> take 2 t = str ''0B'' then integer_literal 2 (drop 2 t)
         else decimal_literal t)"

text \<open>\<open>Number(v)\<close>\<close>

fun Number :: "jsval \<Rightarrow> jsnum" where
  "Number JUndefined = NaN"
| "Number JNull = Num 0"
| "Number (JBool b) = (if b then Num 1 else Num 0)"
| "Number (JNum n) = n"
| "Number (JStr s) = StringToNumber s"

subsection \<open>Regular expressions\<close>

text \<open>
  The pattern of the source is a sequence of literal characters and of character classes
  under \<open>+\<close>, anchored at both ends. \<open>matches\<close> is the backtracking match of the whole
  string: a class under \<open>+\<close> takes one character of the class, and then either the rest
  of the pattern goes on or the class takes more.
\<close>

datatype atom = Lit nat | ClassPlus "nat \<Rightarrow> bool"

fun matches :: "atom list \<Rightarrow> jsstring \<Rightarrow> bool" where
  "matches [] s = (s = [])"
| "matches (Lit c # p) [] = False"
| "matches (Lit c # p) (x # xs) = (x = c \<and> matches p xs)"
| "matches (ClassPlus q # p) [] = False"
| "matches (ClassPlus q # p) (x # xs) = (q x \<and> (matches p xs \<or> matches (ClassPlus q # p) xs))"

text \<open>\<open>[^\s@]\<close>\<close>

definition not_space_at :: "nat \<Rightarrow> bool" where
  "not_space_at c = (\<not> is_ws c \<and> c \<noteq> 64)"

text \<open>\<open>/^[^\s@]+@[^\s@]+\.[^\s@]+$/\<close>\<close>

definition email_pattern :: "atom list" where
  "email_pattern =
     [ClassPlus not_space_at, Lit 64, ClassPlus not_space_at, Lit 46, ClassPlus not_space_at]"

text \<open>
  \<open>pattern.test(v)\<close> matches the pattern against \<open>String(v)\<close>. The string of a number is
  made of digits, \<open>.\<close>, \<open>-\<close>, \<open>+\<close> and \<open>e\<close>, or is \<open>NaN\<close> or \<open>Infinity\<close>: it has no
  \<open>@\<close>, and the pattern, which needs one, does not match it.
\<close>

fun test_email :: "jsval \<Rightarrow> bool" where
  "test_email (JStr s) = matches email_pattern s"
| "test_email (JBool b) = matches email_pattern (if b then str ''true'' else str ''false'')"
| "test_email JNull = matches email_pattern (str ''null'')"
| "test_email JUndefined = matches email_pattern (str ''undefined'')"
| "test_email (JNum n) = False"

section \<open>The ticket service of \<open>server.js\<close>\<close>

definition allowedTickets :: "jsstring list" where
  "allowedTickets =
     [str ''GA Pass'', str ''GA Pass + Parking'', str ''VIP Pass'', str ''1st Day Ticket'',
      str ''2nd Day Ticket'', str ''Weekend Parking Pass'', str ''Single Day Parking'']"

text \<open>\<open>allowedTickets.includes(v)\<close>: only a string is equal to an element of the list.\<close>

fun includes_allowed :: "jsval \<Rightarrow> bool" where
  "includes_allowed (JStr s) = (s \<in> set allowedTickets)"
| "includes_allowed v = False"

text \<open>
  The destructured request body
  \<open>const { firstName, lastName, email, ticketType, quantity, notes } = req.body\<close>.
\<close>

record req_body =
  firstName :: jsval
  lastName :: jsval
  email :: jsval
  ticketType :: jsval
  quantity :: jsval
  "notes" :: jsval

definition msg_firstName :: jsstring where
  "msg_firstName = str ''firstName is required''"

definition msg_lastName :: jsstring where
  "msg_lastName = str ''lastName is required''"

definition msg_email :: jsstring where
  "msg_email = str ''valid email is required''"

definition msg_ticketType :: jsstring where
  "msg_ticketType = str ''invalid ticketType''"

text \<open>The message of the quantity: \<open>quantity must be 1\<close>, the en dash U+2013, \<open>20\<close>.\<close>

definition msg_quantity :: jsstring where
  "msg_quantity = str ''quantity must be 1'' @ [8211] @ str ''20''"

definition push :: "jsstring list \<Rightarrow> jsstring \<Rightarrow> jsstring list" where
  "push errors m = errors @ [m]"

text \<open>The checks of the handler of \<open>POST /api/tickets\<close> in \<open>server.js\<close>, in its order.\<close>

definition validate :: "req_body \<Rightarrow> jsstring list" where
  "validate b =
     (let errors = [];
          errors = (if \<not> truthy (firstName b) then push errors msg_firstName else errors);
          errors = (if \<not> truthy (lastName b) then push errors msg_lastName else errors);
          errors = (if \<not> truthy (email b) \<or> \<not> test_email (email b)
                    then push errors msg_email else errors);
          errors = (if \<not> includes_allowed (ticketType b)
                    then push errors msg_ticketType else errors);
          qtyNum = Number (quantity b);
          errors = (if \<not> isFinite qtyNum \<or> js_lt qtyNum (Num 1) \<or> js_gt qtyNum (Num 20)
                    then push errors msg_quantity else errors)
      in errors)"

text \<open>
  The conditions of the five tests of \<open>validate\<close> with the messages they push, as a
  list: a device of the proofs, which read the validator as a filter of this list.
\<close>

definition validate_conditions :: "req_body \<Rightarrow> (bool \<times> jsstring) list" where
  "validate_conditions b =
     [(\<not> truthy (firstName b), msg_firstName),
      (\<not> truthy (lastName b), msg_lastName),
      (\<not> (truthy (email b) \<and> test_email (email b)), msg_email),
      (\<not> includes_allowed (ticketType b), msg_ticketType),
      (\<not> (\<exists>q. Number (quantity b) = Num q \<and> 1 \<le> q \<and> q \<le> 20), msg_quantity)]"

subsection \<open>The model and its schema\<close>

datatype exn = TypeError | ValidationError | MongooseError

text \<open>The options of a String path and of a Number path of a mongoose schema.\<close>

record string_path =
  s_required :: bool
  s_trim :: bool
  s_lowercase :: bool
  s_maxlength :: "nat option"
  s_enum :: "jsstring list option"

record number_path =
  n_required :: bool
  n_min :: rat
  n_max :: rat

record schema =
  p_firstName :: string_path
  p_lastName :: string_path
  p_email :: string_path
  p_ticketType :: string_path
  p_quantity :: number_path
  p_notes :: string_path

text \<open>\<open>ticketSchema\<close>\<close>

definition ticketSchema :: schema where
  "ticketSchema =
     \<lparr> p_firstName = \<lparr> s_required = True, s_trim = True, s_lowercase = False,
                        s_maxlength = Some 80, s_enum = None \<rparr>,
       p_lastName = \<lparr> s_required = True, s_trim = True, s_lowercase = False,
                       s_maxlength = Some 80, s_enum = None \<rparr>,
       p_email = \<lparr> s_required = True, s_trim = True, s_lowercase = True,
                    s_maxlength = Some 160, s_enum = None \<rparr>,
       p_ticketType = \<lparr> s_required = True, s_trim = False, s_lowercase = False,
                         s_maxlength = None, s_enum = Some allowedTickets \<rparr>,
       p_quantity = \<lparr> n_required = True, n_min = 1, n_max = 20 \<rparr>,
       p_notes = \<lparr> s_required = False, s_trim = True, s_lowercase = False,
                    s_maxlength = Some 1000, s_enum = None \<rparr> \<rparr>"

text \<open>
  The setters of a String path, run when the document is built: \<open>v.toLowerCase()\<close>
  and \<open>v.trim()\<close>. \<open>String.prototype.toLowerCase\<close> is the case mapping of the
  engine, drawn from the Unicode character database; it is no part of the repository and
  is taken as the parameter \<open>lc\<close>. The setter declared last runs first.
\<close>

definition apply_setters :: "(jsstring \<Rightarrow> jsstring) \<Rightarrow> string_path \<Rightarrow> jsstring \<Rightarrow> jsstring" where
  "apply_setters lc p s =
     (let s = (if s_lowercase p then lc s else s);
          s = (if s_trim p then trim s else s)
      in s)"

text \<open>
  The validators of a String path, run on the value after the setters: \<open>required\<close>
  refuses the empty string, \<open>maxlength\<close> counts code units.
\<close>

definition string_valid :: "string_path \<Rightarrow> jsstring \<Rightarrow> bool" where
  "string_valid p s =
     ((s_required p \<longrightarrow> s \<noteq> [])
      \<and> (case s_maxlength p of None \<Rightarrow> True | Some n \<Rightarrow> length s \<le> n)
      \<and> (case s_enum p of None \<Rightarrow> True | Some xs \<Rightarrow> s \<in> set xs))"

text \<open>
  The validators of a Number path, \<open>v >= min\<close> and \<open>v <= max\<close>; \<open>required\<close> holds
  of every number.
\<close>

definition number_valid :: "number_path \<Rightarrow> jsnum \<Rightarrow> bool" where
  "number_valid p n = (js_ge n (Num (n_min p)) \<and> js_le n (Num (n_max p)))"

text \<open>The object literal that the handler passes to \<open>Ticket.create\<close>.\<close>

record ticket_obj =
  o_firstName :: jsstring
  o_lastName :: jsstring
  o_email :: jsstring
  o_ticketType :: jsval
  o_quantity :: jsnum
  o_notes :: jsstring

text \<open>A stored document.\<close>

record ticket_doc =
  d_id :: nat
  d_firstName :: jsstring
  d_lastName :: jsstring
  d_email :: jsstring
  d_ticketType :: jsstring
  d_quantity :: jsnum
  d_notes :: jsstring
  d_createdAt :: nat

text \<open>
  The world of the handlers: the documents of the collection in insertion order, the
  state of the connection (\<open>mongoose.connection.readyState\<close>, 1 when connected), the
  next identifier, the clock that \<open>Date.now\<close> reads, and the case mapping of the
  engine, \<open>String.prototype.toLowerCase\<close>.
\<close>

record db =
  docs :: "ticket_doc list"
  readyState :: nat
  next_id :: nat
  now :: nat
  lower_case :: "jsstring \<Rightarrow> jsstring"

text \<open>
  \<open>Ticket.create(obj)\<close>: the setters, the validators, then the insertion. A value of
  \<open>ticketType\<close> that is not a string is refused by \<open>required\<close> (null, undefined) or,
  cast to a string, by \<open>enum\<close> (no allowed name is the string of a number or of a
  boolean). The insertion is modelled as failing when the connection is not up; the
  buffering of commands by the driver is not modelled.
\<close>

definition Ticket_create :: "ticket_obj \<Rightarrow> db \<Rightarrow> exn + (ticket_doc \<times> db)" where
  "Ticket_create obj s =
     (case o_ticketType obj of
        JStr tt \<Rightarrow>
          (let fname = apply_setters (lower_case s) (p_firstName ticketSchema) (o_firstName obj);
               lname = apply_setters (lower_case s) (p_lastName ticketSchema) (o_lastName obj);
               em = apply_setters (lower_case s) (p_email ticketSchema) (o_email obj);
               ty = apply_setters (lower_case s) (p_ticketType ticketSchema) tt;
               nt = apply_setters (lower_case s) (p_notes ticketSchema) (o_notes obj)
           in if \<not> (string_valid (p_firstName ticketSchema) fname
                     \<and> string_valid (p_lastName ticketSchema) lname
                     \<and> string_valid (p_email ticketSchema) em
                     \<and> string_valid (p_ticketType ticketSchema) ty
                     \<and> number_valid (p_quantity ticketSchema) (o_quantity obj)
                     \<and> string_valid (p_notes ticketSchema) nt)
              then Inl ValidationError
              else if readyState s \<noteq> 1 then Inl MongooseError
              else
                (let doc = \<lparr> d_id = next_id s, d_firstName = fname, d_lastName = lname, d_email = em,
                             d_ticketType = ty, d_quantity = o_quantity obj, d_notes = nt,
                             d_createdAt = now s \<rparr>
                 in Inr (doc, s\<lparr> docs := docs s @ [doc], next_id := next_id s + 1 \<rparr>)))
      | _ \<Rightarrow> Inl ValidationError)"

subsection \<open>The responses\<close>

datatype json =
    HealthBody bool bool
  | ErrorsBody jsstring "jsstring list"
  | SavedBody jsstring nat
  | MessageBody jsstring

record response =
  status :: nat
  body :: json

subsection \<open>\<open>GET /api/health\<close>\<close>

text \<open>\<open>res.json({ ok: true, mongo: mongoose.connection.readyState === 1 })\<close>\<close>

definition get_health :: "db \<Rightarrow> response \<times> db" where
  "get_health s = (\<lparr> status = 200, body = HealthBody True (readyState s = 1) \<rparr>, s)"

subsection \<open>\<open>POST /api/tickets\<close>\<close>

text \<open>\<open>v.trim()\<close>: a value that is not a string has no method \<open>trim\<close>.\<close>

fun call_trim :: "jsval \<Rightarrow> exn + jsstring" where
  "call_trim (JStr s) = Inr (trim s)"
| "call_trim v = Inl TypeError"

text \<open>\<open>a ?? b\<close>\<close>

definition nullish_or :: "jsval \<Rightarrow> jsval \<Rightarrow> jsval" where
  "nullish_or a b = (if a = JUndefined \<or> a = JNull then b else a)"

text \<open>The properties of the object literal are evaluated in their order.\<close>

definition ticket_object :: "req_body \<Rightarrow> exn + ticket_obj" where
  "ticket_object b =
     (case call_trim (firstName b) of Inl e \<Rightarrow> Inl e | Inr fname \<Rightarrow>
     (case call_trim (lastName b) of Inl e \<Rightarrow> Inl e | Inr lname \<Rightarrow>
     (case call_trim (email b) of Inl e \<Rightarrow> Inl e | Inr em \<Rightarrow>
     (case call_trim (nullish_or (notes b) (JStr [])) of Inl e \<Rightarrow> Inl e | Inr nt \<Rightarrow>
        Inr \<lparr> o_firstName = fname, o_lastName = lname, o_email = em,
              o_ticketType = ticketType b, o_quantity = Number (quantity b),
              o_notes = nt \<rparr>))))"

definition error_saving :: response where
  "error_saving = \<lparr> status = 500, body = MessageBody (str ''Error saving ticket'') \<rparr>"

text \<open>
  The handler: the early return of status 400 on a non-empty list of errors, then the
  creation of the ticket; whatever is thrown is caught and answered with status 500.
\<close>

definition post_tickets :: "req_body \<Rightarrow> db \<Rightarrow> response \<times> db" where
  "post_tickets b s =
     (let errors = validate b
      in if length errors \<noteq> 0
         then (\<lparr> status = 400, body = ErrorsBody (str ''Validation failed'') errors \<rparr>, s)
         else (case ticket_object b of
                 Inl e \<Rightarrow> (error_saving, s)
               | Inr obj \<Rightarrow>
                   (case Ticket_create obj s of
                      Inl e \<Rightarrow> (error_saving, s)
                    | Inr (ticket, s') \<Rightarrow>
                        (\<lparr> status = 201, body = SavedBody (str ''Saved'') (d_id ticket) \<rparr>,
                         s'))))"

section \<open>The handlers of \<open>models/tickets.js\<close>\<close>

text \<open>
  The file holds further versions of the server. The first validates with type checks and
  without coercion. Its message of the quantity is not the one of \<open>server.js\<close>: where
  that has the en dash, the file has the three characters U+00E2, U+20AC and U+201C.
\<close>

definition msg_quantity_typed :: jsstring where
  "msg_quantity_typed = str ''quantity must be 1'' @ [226, 8364, 8220] @ str ''20''"

definition validate_typed :: "req_body \<Rightarrow> jsstring list" where
  "validate_typed b =
     (let errors = [];
          errors = (if \<not> truthy (firstName b) \<or> \<not> is_string (firstName b)
                    then push errors msg_firstName else errors);
          errors = (if \<not> truthy (lastName b) \<or> \<not> is_string (lastName b)
                    then push errors msg_lastName else errors);
          errors = (if \<not> truthy (email b) \<or> \<not> is_string (email b) \<or> \<not> test_email (email b)
                    then push errors msg_email else errors);
          errors = (if \<not> truthy (ticketType b) \<or> \<not> includes_allowed (ticketType b)
                    then push errors msg_ticketType else errors);
          errors = (if \<not> (Number_isFinite (quantity b)
                            \<and> js_ge (Number (quantity b)) (Num 1)
                            \<and> js_le (Number (quantity b)) (Num 20))
                    then push errors msg_quantity_typed else errors)
      in errors)"

text \<open>
  The last version tests the names and the email after trimming:
  \<open>!v || !v.trim()\<close>, where \<open>v.trim()\<close> throws on a value that is not a string.
\<close>

definition blank :: "jsval \<Rightarrow> exn + bool" where
  "blank v =
     (if \<not> truthy v then Inr True
      else (case call_trim v of Inl e \<Rightarrow> Inl e | Inr t \<Rightarrow> Inr (t = [])))"

definition validate_trimmed :: "req_body \<Rightarrow> exn + jsstring list" where
  "validate_trimmed b =
     (case blank (firstName b) of Inl e \<Rightarrow> Inl e | Inr b1 \<Rightarrow>
     (case blank (lastName b) of Inl e \<Rightarrow> Inl e | Inr b2 \<Rightarrow>
     (case blank (email b) of Inl e \<Rightarrow> Inl e | Inr b3 \<Rightarrow>
        (let errors = [];
             errors = (if b1 then push errors (str ''First name is required.'') else errors);
             errors = (if b2 then push errors (str ''Last name is required.'') else errors);
             errors = (if b3 then push errors (str ''Email is required.'') else errors);
             errors = (if \<not> truthy (ticketType b)
                       then push errors (str ''Ticket type is required.'') else errors);
             errors = (if \<not> truthy (quantity b) \<or> js_lt (Number (quantity b)) (Num 1)
                       then push errors (str ''Quantity must be at least 1.'') else errors)
         in Inr errors))))"

subsection \<open>\<open>GET /api/tickets/export\<close>\<close>

text \<open>
  A document read with \<open>lean()\<close> is a plain object, a map from keys to values. The
  export reads a value \<open>v\<close> through \<open>v == null\<close> and \<open>String(v)\<close> only:
  \<open>Nullish\<close> is a value that is null or undefined (a key that is absent), and
  \<open>Value s\<close> a value whose string is \<open>s\<close>.
\<close>

datatype field = Nullish | Value jsstring

type_synonym lean_doc = "jsstring \<Rightarrow> field"

definition header :: "jsstring list" where
  "header = [str ''createdAt'', str ''firstName'', str ''lastName'', str ''email'',
             str ''ticketType'', str ''quantity'', str ''notes'']"

text \<open>\<open>s.replace(/"/g, '""')\<close>\<close>

fun double_quotes :: "jsstring \<Rightarrow> jsstring" where
  "double_quotes [] = []"
| "double_quotes (c # cs) = (if c = 34 then 34 # 34 # double_quotes cs else c # double_quotes cs)"

fun escape :: "field \<Rightarrow> jsstring" where
  "escape Nullish = []"
| "escape (Value v) = [34] @ double_quotes v @ [34]"

text \<open>\<open>Array.prototype.join\<close> on an array of strings.\<close>

fun join :: "jsstring \<Rightarrow> jsstring list \<Rightarrow> jsstring" where
  "join sep [] = []"
| "join sep [x] = x"
| "join sep (x # y # ys) = x @ sep @ join sep (y # ys)"

definition row :: "lean_doc \<Rightarrow> jsstring list" where
  "row t = [escape (t (str ''createdAt'')), escape (t (str ''firstName'')),
            escape (t (str ''lastName'')), escape (t (str ''email'')),
            escape (t (str ''ticketType'')), escape (t (str ''quantity'')),
            escape (t (str ''notes''))]"

definition csv_export :: "lean_doc list \<Rightarrow> jsstring" where
  "csv_export ds =
     (let rows = map row ds;
          csvLines = join (str '','') header # map (join (str '','')) rows
      in join [10] csvLines)"

section \<open>The statements of the specification\<close>

text \<open>A field is missing when its key is absent or its value is null.\<close>

definition missing :: "jsval \<Rightarrow> bool" where
  "missing v = (v = JUndefined \<or> v = JNull)"

text \<open>The part of an address before its first \<open>@\<close>, and the part after it.\<close>

definition local_part :: "jsstring \<Rightarrow> jsstring" where
  "local_part s = takeWhile (\<lambda>c. c \<noteq> 64) s"

definition domain_part :: "jsstring \<Rightarrow> jsstring" where
  "domain_part s = drop 1 (dropWhile (\<lambda>c. c \<noteq> 64) s)"

text \<open>
  The shape of an address in the words of the specification: exactly one \<open>@\<close>,
  characters that are not white space on both of its sides, and a \<open>.\<close> in the domain
  part.
\<close>

definition email_as_specified :: "jsstring \<Rightarrow> bool" where
  "email_as_specified s =
     (count_list s 64 = 1
      \<and> local_part s \<noteq> [] \<and> domain_part s \<noteq> []
      \<and> (\<forall>c \<in> set s. \<not> is_ws c)
      \<and> 46 \<in> set (domain_part s))"

text \<open>
  The shape that the pattern has: the \<open>.\<close> of the domain part has a character of the
  domain part before it and one after it.
\<close>

definition email_shape :: "jsstring \<Rightarrow> bool" where
  "email_shape s =
     (count_list s 64 = 1
      \<and> local_part s \<noteq> []
      \<and> (\<forall>c \<in> set s. \<not> is_ws c)
      \<and> (\<exists>i \<in> set [1 ..< length (domain_part s) - 1]. domain_part s ! i = 46))"

text \<open>
  The normal form of a stored ticket, in the words of the specification, for the case
  mapping \<open>lc\<close>: trimmed names and notes, the email trimmed and lower-cased (and left
  trimmed), the quantity a finite number.
\<close>

definition normalized :: "(jsstring \<Rightarrow> jsstring) \<Rightarrow> req_body \<Rightarrow> ticket_doc \<Rightarrow> bool" where
  "normalized lc b d =
     (\<exists>f l e t n.
        firstName b = JStr f \<and> d_firstName d = trim f
        \<and> lastName b = JStr l \<and> d_lastName d = trim l
        \<and> email b = JStr e \<and> d_email d = trim (lc (trim e))
        \<and> ticketType b = JStr t \<and> d_ticketType d = t
        \<and> nullish_or (notes b) (JStr []) = JStr n \<and> d_notes d = trim n
        \<and> isFinite (d_quantity d) \<and> d_quantity d = Number (quantity b))"

text \<open>The quantity in the words of the specification: an integer from 1 to 20.\<close>

definition quantity_as_specified :: "jsval \<Rightarrow> bool" where
  "quantity_as_specified v = (\<exists>k::int. v = JNum (Num (of_int k)) \<and> 1 \<le> k \<and> k \<le> 20)"

text \<open>The header line of the export in the words of the specification.\<close>

definition header_line :: jsstring where
  "header_line = str ''createdAt,firstName,lastName,email,ticketType,quantity,notes''"

text \<open>
  A submission that keeps to the data model of the specification, for the case mapping
  \<open>lc\<close>: names that are strings, not empty once trimmed and of at most 80 characters,
  an email of the shape of the pattern that is, trimmed and lower-cased, not empty and of
  at most 160 characters, an allowed ticket type, a quantity that converts to a number
  from 1 to 20, and notes that are absent or a string of at most 1000 characters once
  trimmed.
\<close>

definition well_formed :: "(jsstring \<Rightarrow> jsstring) \<Rightarrow> req_body \<Rightarrow> bool" where
  "well_formed lc b =
     (\<exists>f l e t n q.
        firstName b = JStr f \<and> trim f \<noteq> [] \<and> length (trim f) \<le> 80
        \<and> lastName b = JStr l \<and> trim l \<noteq> [] \<and> length (trim l) \<le> 80
        \<and> email b = JStr e \<and> email_shape e
        \<and> trim (lc (trim e)) \<noteq> [] \<and> length (trim (lc (trim e))) \<le> 160
        \<and> ticketType b = JStr t \<and> t \<in> set allowedTickets
        \<and> Number (quantity b) = Num q \<and> 1 \<le> q \<and> q \<le> 20
        \<and> nullish_or (notes b) (JStr []) = JStr n \<and> length (trim n) \<le> 1000)"

text \<open>
  The data model of the specification: a name is a text that is not empty once trimmed
  and has at most 80 characters, an email is a text of the specified shape of at most 160
  characters, the ticket type is one of the allowed names, the quantity an integer from
  1 to 20. A field of a submission is missing or invalid when the submission is not of
  this form.
\<close>

definition name_as_specified :: "jsval \<Rightarrow> bool" where
  "name_as_specified v = (\<exists>s. v = JStr s \<and> trim s \<noteq> [] \<and> length (trim s) \<le> 80)"

definition submission_as_specified :: "req_body \<Rightarrow> bool" where
  "submission_as_specified b =
     (name_as_specified (firstName b) \<and> name_as_specified (lastName b)
      \<and> (\<exists>s. email b = JStr s \<and> email_as_specified (trim s) \<and> length (trim s) \<le> 160)
      \<and> (\<exists>s. ticketType b = JStr s \<and> s \<in> set allowedTickets)
      \<and> quantity_as_specified (quantity b))"

text \<open>The values that count as false: \<open>undefined\<close>, \<open>null\<close>, \<open>false\<close>, NaN, 0 and the empty string.\<close>

definition falsy :: "jsval \<Rightarrow> bool" where
  "falsy v = (v \<in> {JUndefined, JNull, JBool False, JNum NaN, JNum (Num 0), JStr []})"

text \<open>A text that is not empty once trimmed.\<close>

definition present_name :: "jsval \<Rightarrow> bool" where
  "present_name v = (\<exists>s. v = JStr s \<and> trim s \<noteq> [])"

text \<open>
  The rules that the validator enforces, stated on the values of the fields, with their
  messages and in the order of the fields: a name is a text that is not empty once
  trimmed, the email a text of the shape of the pattern, the ticket type one of the
  allowed names, and the quantity converts to a finite number from 1 to 20. A rule is
  violated when the first component is true.
\<close>

definition enforced_rules :: "req_body \<Rightarrow> (bool \<times> jsstring) list" where
  "enforced_rules b =
     [(\<not> present_name (firstName b), msg_firstName),
      (\<not> present_name (lastName b), msg_lastName),
      (\<not> (\<exists>s. email b = JStr s \<and> email_shape s), msg_email),
      (\<not> (\<exists>s. ticketType b = JStr s \<and> s \<in> set allowedTickets), msg_ticketType),
      (\<not> (\<exists>q. Number (quantity b) = Num q \<and> 1 \<le> q \<and> q \<le> 20), msg_quantity)]"

text \<open>
  The message of the quantity of \<open>models/tickets.js\<close> read as the one of
  \<open>server.js\<close>, every other message as it is.
\<close>

definition as_server :: "jsstring \<Rightarrow> jsstring" where
  "as_server m = (if m = msg_quantity_typed then msg_quantity else m)"

section \<open>Sample inputs\<close>

text \<open>
  On a string of ASCII characters \<open>toLowerCase\<close> turns the letters A to Z into a to z and
  keeps the rest. The sample world carries this mapping; the sample inputs are ASCII.
\<close>

definition lower_ascii :: "jsstring \<Rightarrow> jsstring" where
  "lower_ascii s = map (\<lambda>c. if 65 \<le> c \<and> c \<le> 90 then c + 32 else c) s"

definition db0 :: db where
  "db0 = \<lparr> docs = [], readyState = 1, next_id = 0, now = 0, lower_case = lower_ascii \<rparr>"

text \<open>A submission without a first name, with a bad email and a quantity of zero.\<close>

definition incomplete_body :: req_body where
  "incomplete_body =
     \<lparr> firstName = JUndefined, lastName = JStr (str ''Doe''), email = JStr (str ''foo''),
       ticketType = JStr (str ''GA Pass''), quantity = JNum (Num 0), notes = JUndefined \<rparr>"

text \<open>A submission that passes every check.\<close>

definition valid_body :: req_body where
  "valid_body =
     \<lparr> firstName = JStr (str '' Ann''), lastName = JStr (str ''Doe ''),
       email = JStr (str ''Ann@B.co''), ticketType = JStr (str ''GA Pass''),
       quantity = JNum (Num 2), notes = JUndefined \<rparr>"

text \<open>The same submission with a quantity of one and a half.\<close>

definition fractional_body :: req_body where
  "fractional_body = valid_body\<lparr> quantity := JNum (Num (3 / 2)) \<rparr>"

text \<open>The same submission with a first name of three spaces.\<close>

definition whitespace_name_body :: req_body where
  "whitespace_name_body = valid_body\<lparr> firstName := JStr (str ''   '') \<rparr>"

text \<open>The same submission with its quantity as a string.\<close>

definition string_quantity_body :: req_body where
  "string_quantity_body = valid_body\<lparr> quantity := JStr (str ''5'') \<rparr>"

section \<open>The validator of \<open>server.js\<close>\<close>

lemma quantity_check:
  "(\<not> isFinite n \<or> js_lt n (Num 1) \<or> js_gt n (Num 20))
   \<longleftrightarrow> \<not> (\<exists>q. n = Num q \<and> 1 \<le> q \<and> q \<le> 20)"
  by (cases n) (auto simp: js_gt_def)

text \<open>Five conditional pushes select, in order, the messages whose condition holds.\<close>

lemma pushes_filter:
  "(let errors = [];
        errors = (if A then push errors a else errors);
        errors = (if B then push errors b else errors);
        errors = (if C then push errors c else errors);
        errors = (if D then push errors d else errors);
        errors = (if E then push errors e else errors)
    in errors) = map snd (filter fst [(A, a), (B, b), (C, c), (D, d), (E, e)])"
  by (simp add: push_def)

lemma validate_filter: "validate b = map snd (filter fst (validate_conditions b))"
proof -
  have "validate b = map snd (filter fst
     [(\<not> truthy (firstName b), msg_firstName),
      (\<not> truthy (lastName b), msg_lastName),
      (\<not> truthy (email b) \<or> \<not> test_email (email b), msg_email),
      (\<not> includes_allowed (ticketType b), msg_ticketType),
      (\<not> isFinite (Number (quantity b)) \<or> js_lt (Number (quantity b)) (Num 1)
         \<or> js_gt (Number (quantity b)) (Num 20), msg_quantity)])"
    unfolding validate_def Let_def[of "Number (quantity b)"] by (rule pushes_filter)
  also have "\<dots> = map snd (filter fst (validate_conditions b))"
    unfolding validate_conditions_def quantity_check de_Morgan_conj ..
  finally show ?thesis .
qed

lemma messages_distinct:
  "distinct [msg_firstName, msg_lastName, msg_email, msg_ticketType, msg_quantity]"
  by (simp add: msg_firstName_def msg_lastName_def msg_email_def msg_ticketType_def
      msg_quantity_def str_def)

lemma map_snd_conditions:
  "map snd (validate_conditions b) =
   [msg_firstName, msg_lastName, msg_email, msg_ticketType, msg_quantity]"
  by (simp add: validate_conditions_def)

lemma validate_subseq:
  "subseq (validate b) [msg_firstName, msg_lastName, msg_email, msg_ticketType, msg_quantity]"
proof -
  have "subseq (map snd (filter fst (validate_conditions b))) (map snd (validate_conditions b))"
    by (intro subseq_map subseq_filter_left)
  then show ?thesis
    by (simp only: validate_filter map_snd_conditions)
qed

lemma validate_distinct: "distinct (validate b)"
  unfolding validate_filter
  by (rule distinct_map_filter) (simp only: map_snd_conditions messages_distinct)

lemma validate_incomplete:
  "validate incomplete_body = [msg_firstName, msg_email, msg_quantity]"
  by (simp add: validate_filter validate_conditions_def incomplete_body_def allowedTickets_def str_def
        email_pattern_def not_space_at_def is_ws_def)

lemma validate_fractional_body: "validate fractional_body = []"
  by (simp add: validate_def push_def js_gt_def fractional_body_def valid_body_def
        allowedTickets_def str_def email_pattern_def not_space_at_def is_ws_def)

subsection \<open>The quantity\<close>

lemma msg_quantity_neq:
  "msg_quantity \<noteq> msg_firstName" "msg_quantity \<noteq> msg_lastName"
  "msg_quantity \<noteq> msg_email" "msg_quantity \<noteq> msg_ticketType"
  using messages_distinct by auto

lemma quantity_error_iff:
  "msg_quantity \<in> set (validate b)
   \<longleftrightarrow> \<not> (\<exists>q. Number (quantity b) = Num q \<and> 1 \<le> q \<and> q \<le> 20)"
  by (simp add: validate_filter validate_conditions_def msg_quantity_neq del: not_ex)

lemma numeric_quantity_error_iff:
  "msg_quantity \<in> set (validate (b\<lparr> quantity := JNum (Num r) \<rparr>))
   \<longleftrightarrow> \<not> (1 \<le> r \<and> r \<le> 20)"
  by (auto simp: quantity_error_iff)

lemma three_halves_not_integer: "(3 / 2 :: rat) \<notin> \<int>"
proof
  assume "(3 / 2 :: rat) \<in> \<int>"
  then obtain k :: int where "(3 / 2 :: rat) = of_int k"
    by (auto elim: Ints_cases)
  then have "(3 :: rat) = of_int (2 * k)"
    by simp
  then have "(3 :: int) = 2 * k"
    by (metis of_int_eq_iff of_int_numeral)
  then show False
    by presburger
qed

text \<open>
  Claim C2, as stated, fails: a quantity of one and a half is not an integer from 1 to 20,
  and the validator accepts the submission that carries it.
\<close>

theorem fractional_quantity_accepted:
  "\<not> quantity_as_specified (quantity fractional_body) \<and> validate fractional_body = []"
proof -
  have "\<not> quantity_as_specified (JNum (Num (3 / 2)))"
    unfolding quantity_as_specified_def using three_halves_not_integer
    by (metis Ints_of_int jsnum.inject jsval.inject(2))
  then show ?thesis
    by (simp add: validate_fractional_body) (simp add: fractional_body_def)
qed

text \<open>
  Claim C2, amended. The validator accepts a quantity exactly when its conversion to a
  number is a finite number from 1 to 20, an integer or not: 0 and 21 are rejected, 1 and
  20 are accepted, and so is 1.5.
\<close>

theorem quantity_accepted_iff:
  "(msg_quantity \<notin> set (validate b))
     = (\<exists>q. Number (quantity b) = Num q \<and> 1 \<le> q \<and> q \<le> 20)
   \<and> msg_quantity \<in> set (validate (b\<lparr> quantity := JNum (Num 0) \<rparr>))
   \<and> msg_quantity \<in> set (validate (b\<lparr> quantity := JNum (Num 21) \<rparr>))
   \<and> msg_quantity \<notin> set (validate (b\<lparr> quantity := JNum (Num 1) \<rparr>))
   \<and> msg_quantity \<notin> set (validate (b\<lparr> quantity := JNum (Num 20) \<rparr>))
   \<and> msg_quantity \<notin> set (validate (b\<lparr> quantity := JNum (Num (3 / 2)) \<rparr>))"
proof -
  have "(msg_quantity \<notin> set (validate b))
     = (\<exists>q. Number (quantity b) = Num q \<and> 1 \<le> q \<and> q \<le> 20)"
    by (simp only: quantity_error_iff not_not)
  then show ?thesis
    by (simp only: numeric_quantity_error_iff) simp
qed

theorem quantity_accepted_iff_witness:
  "msg_quantity \<notin> set (validate fractional_body)
   \<and> msg_quantity \<in> set (validate (fractional_body\<lparr> quantity := JNum (Num 21) \<rparr>))"
proof -
  have "\<exists>q. Number (quantity fractional_body) = Num q \<and> 1 \<le> q \<and> q \<le> 20"
    by (rule exI [of _ "3 / 2"]) (simp add: fractional_body_def)
  with quantity_accepted_iff [of fractional_body] show ?thesis
    by blast
qed

section \<open>The handlers of \<open>server.js\<close>\<close>

text \<open>
  Claim C7. The health check answers with status 200 and a body whose \<open>ok\<close> is the
  literal true and whose second field tells whether the connection to the store is up; it
  leaves the state as it was.
\<close>

theorem health_always_ok:
  "fst (get_health s) = \<lparr> status = 200, body = HealthBody True (readyState s = 1) \<rparr>
   \<and> snd (get_health s) = s"
  by (simp add: get_health_def)

text \<open>
  Claim C8. When the answer to a submission has status 400, the store is as it was before,
  and the body is the message with the non-empty list of errors and nothing else.
\<close>

theorem rejected_submission_not_stored:
  assumes "status (fst (post_tickets b s)) = 400"
  shows "snd (post_tickets b s) = s
         \<and> validate b \<noteq> []
         \<and> body (fst (post_tickets b s)) = ErrorsBody (str ''Validation failed'') (validate b)"
  using assms
  by (auto simp: post_tickets_def error_saving_def Let_def
      split: sum.splits if_splits prod.splits)

theorem rejected_submission_not_stored_witness:
  "status (fst (post_tickets incomplete_body db0)) = 400
   \<and> snd (post_tickets incomplete_body db0) = db0
   \<and> body (fst (post_tickets incomplete_body db0))
       = ErrorsBody (str ''Validation failed'') [msg_firstName, msg_email, msg_quantity]"
proof -
  have h: "status (fst (post_tickets incomplete_body db0)) = 400"
    by (simp add: post_tickets_def validate_incomplete)
  from rejected_submission_not_stored [OF h] show ?thesis
    using h by (simp add: validate_incomplete)
qed

section \<open>The export\<close>

lemma join_Cons: "join sep (x # xs) = x @ concat (map (\<lambda>y. sep @ y) xs)"
  by (induction xs arbitrary: x) auto

lemma join_header: "join (str '','') header = header_line"
  by (simp add: header_def header_line_def str_def)

lemma double_quotes_concat:
  "double_quotes v = concat (map (\<lambda>c. if c = 34 then [34, 34] else [c]) v)"
  by (induction v) auto

lemma row_header: "row t = map (\<lambda>k. escape (t k)) header"
  by (simp add: row_def header_def)

lemma row_line_last: "join (str '','') (row t) \<noteq> [] \<and> last (join (str '','') (row t)) \<in> {34, 44}"
  by (cases "t (str ''notes'')") (simp_all add: row_def str_def)

lemma csv_export_eq:
  "csv_export ds = header_line @ concat (map (\<lambda>t. 10 # join (str '','') (row t)) ds)"
  by (simp add: csv_export_def join_Cons join_header comp_def)

lemma header_line_no_newline: "10 \<notin> set header_line"
  by (simp add: header_line_def str_def)

lemma takeWhile_until:
  "x \<notin> set xs \<Longrightarrow> takeWhile (\<lambda>c. c \<noteq> x) (xs @ x # ys) = xs"
  "x \<notin> set xs \<Longrightarrow> takeWhile (\<lambda>c. c \<noteq> x) xs = xs"
  by (induction xs) auto

lemma csv_first_line: "takeWhile (\<lambda>c. c \<noteq> 10) (csv_export ds) = header_line"
  by (cases ds) (simp_all add: csv_export_eq takeWhile_until header_line_no_newline)

lemma csv_last: "csv_export ds \<noteq> [] \<and> last (csv_export ds) \<noteq> 10"
proof (cases ds rule: rev_cases)
  case Nil
  then show ?thesis by (simp add: csv_export_eq header_line_def str_def)
next
  case (snoc ts t)
  have "csv_export ds = (header_line @ concat (map (\<lambda>t. 10 # join (str '','') (row t)) ts) @ [10]) @ join (str '','') (row t)"
    by (simp add: csv_export_eq snoc)
  with row_line_last [of t] show ?thesis
    by (auto simp del: append_assoc)
qed


text \<open>
  Claim C4, as stated, fails: a value that is null or missing is rendered as the empty
  string, not as two double quotes.
\<close>

theorem null_field_unquoted: "escape Nullish = [] \<and> escape Nullish \<noteq> [34, 34]"
  by simp

text \<open>
  Claim C4, amended. In every row each field is the rendering of the value under the
  key of its column. A value that is neither null nor missing is rendered between two
  double quotes, each double quote inside it doubled, so that \<open>He said "hi"\<close> becomes
  \<open>"He said ""hi"""\<close>; a value that is null or missing is rendered as the empty string,
  without quotes.
\<close>

theorem escape_quotes_value:
  "escape (Value v) = [34] @ double_quotes v @ [34]
   \<and> double_quotes v = concat (map (\<lambda>c. if c = 34 then [34, 34] else [c]) v)
   \<and> escape (Value (str ''He said '' @ [34] @ str ''hi'' @ [34]))
       = [34] @ str ''He said '' @ [34, 34] @ str ''hi'' @ [34, 34] @ [34]
   \<and> escape Nullish = []
   \<and> row t = map (\<lambda>k. escape (t k)) header"
  by (simp add: double_quotes_concat [symmetric] row_header) (simp add: str_def)

text \<open>
  Claim C5. The document of the export is the header line followed, for each record in
  order, by a newline and the fields of the record in the order of the header, joined by
  commas. Its first line is the header line, it does not end in a newline, and for no
  record it is the header line alone.
\<close>

theorem csv_document:
  "csv_export ds = header_line @ concat (map (\<lambda>t. [10] @ join (str '','') (row t)) ds)
   \<and> row t = map (\<lambda>k. escape (t k)) header
   \<and> takeWhile (\<lambda>c. c \<noteq> 10) (csv_export ds) = header_line
   \<and> csv_export ds \<noteq> [] \<and> last (csv_export ds) \<noteq> 10
   \<and> csv_export [] = header_line"
  using csv_last [of ds] csv_first_line [of ds]
  by (simp add: csv_export_eq row_header)

section \<open>The email address\<close>

subsection \<open>The pattern\<close>

lemma matches_Nil: "matches [] s \<longleftrightarrow> s = []"
  by simp

lemma matches_Lit: "matches (Lit c # p) s \<longleftrightarrow> (\<exists>v. s = c # v \<and> matches p v)"
  by (cases s) auto

lemma matches_ClassPlus:
  "matches (ClassPlus q # p) s
   \<longleftrightarrow> (\<exists>u v. s = u @ v \<and> u \<noteq> [] \<and> (\<forall>c \<in> set u. q c) \<and> matches p v)"
proof (induction s)
  case Nil
  then show ?case by simp
next
  case (Cons x xs)
  show ?case
  proof
    assume "matches (ClassPlus q # p) (x # xs)"
    then have qx: "q x" and rest: "matches p xs \<or> matches (ClassPlus q # p) xs"
      by simp_all
    from rest show "\<exists>u v. x # xs = u @ v \<and> u \<noteq> [] \<and> (\<forall>c \<in> set u. q c) \<and> matches p v"
    proof
      assume "matches p xs"
      with qx have "x # xs = [x] @ xs \<and> [x] \<noteq> [] \<and> (\<forall>c \<in> set [x]. q c) \<and> matches p xs"
        by simp
      then show ?thesis by blast
    next
      assume "matches (ClassPlus q # p) xs"
      with Cons.IH obtain u v where "xs = u @ v" "u \<noteq> []" "\<forall>c \<in> set u. q c" "matches p v"
        by blast
      with qx have "x # xs = (x # u) @ v \<and> x # u \<noteq> [] \<and> (\<forall>c \<in> set (x # u). q c) \<and> matches p v"
        by simp
      then show ?thesis by blast
    qed
  next
    assume "\<exists>u v. x # xs = u @ v \<and> u \<noteq> [] \<and> (\<forall>c \<in> set u. q c) \<and> matches p v"
    then obtain u v where uv: "x # xs = u @ v" "u \<noteq> []" "\<forall>c \<in> set u. q c" "matches p v"
      by blast
    then obtain u' where u: "u = x # u'" "xs = u' @ v"
      by (cases u) auto
    show "matches (ClassPlus q # p) (x # xs)"
    proof (cases "u' = []")
      case True
      with u uv show ?thesis by simp
    next
      case False
      with u uv have "matches (ClassPlus q # p) xs"
        using Cons.IH by auto
      with u uv show ?thesis by simp
    qed
  qed
qed

text \<open>
  The pattern matches the strings made of a local part, an \<open>@\<close>, and a domain part
  with a \<open>.\<close> inside, where the three runs around the \<open>@\<close> and that \<open>.\<close> are
  non-empty and hold neither white space nor \<open>@\<close>.
\<close>

lemma matches_email_pattern:
  "matches email_pattern s
   \<longleftrightarrow> (\<exists>l d t. s = l @ [64] @ d @ [46] @ t \<and> l \<noteq> [] \<and> d \<noteq> [] \<and> t \<noteq> []
         \<and> (\<forall>c \<in> set (l @ d @ t). not_space_at c))"
  unfolding email_pattern_def matches_ClassPlus matches_Lit matches_Nil
  by (auto; blast)


lemma dropWhile_until:
  "x \<notin> set xs \<Longrightarrow> dropWhile (\<lambda>c. c \<noteq> x) (xs @ x # ys) = x # ys"
  by (induction xs) auto

lemma shape_of_parts:
  assumes s: "s = l @ [64] @ d @ [46] @ t"
    and ne: "l \<noteq> []" "d \<noteq> []" "t \<noteq> []"
    and cls: "\<forall>c \<in> set (l @ d @ t). not_space_at c"
  shows "email_shape s"
proof -
  from cls have at: "64 \<notin> set l" "64 \<notin> set d" "64 \<notin> set t"
    and ws: "\<forall>c \<in> set (l @ d @ t). \<not> is_ws c"
    by (auto simp: not_space_at_def)
  have s': "s = l @ 64 # (d @ 46 # t)"
    using s by simp
  have "count_list s 64 = 1"
    using at by (simp add: s count_list_0_iff)
  moreover have "local_part s = l"
    unfolding local_part_def s' using at(1) by (rule takeWhile_until(1))
  moreover have dom: "domain_part s = d @ 46 # t"
    unfolding domain_part_def s' using at(1) by (simp add: dropWhile_until)
  moreover have "\<forall>c \<in> set s. \<not> is_ws c"
    using ws by (auto simp: s is_ws_def)
  moreover have "length d \<in> set [1 ..< length (domain_part s) - 1]"
  proof -
    have "0 < length d" "0 < length t"
      using ne by simp_all
    then show ?thesis
      by (simp add: dom Suc_le_eq)
  qed
  moreover have "domain_part s ! length d = 46"
    by (simp add: dom)
  ultimately show ?thesis
    using ne(1) unfolding email_shape_def by blast
qed

lemma parts_of_shape:
  assumes "email_shape s"
  shows "\<exists>l d t. s = l @ [64] @ d @ [46] @ t \<and> l \<noteq> [] \<and> d \<noteq> [] \<and> t \<noteq> []
           \<and> (\<forall>c \<in> set (l @ d @ t). not_space_at c)"
proof -
  let ?P = "\<lambda>c. c \<noteq> (64::nat)"
  let ?l = "local_part s" and ?r = "domain_part s"
  from assms have cnt: "count_list s 64 = 1" and l: "?l \<noteq> []"
    and ws: "\<forall>c \<in> set s. \<not> is_ws c"
    and ex: "\<exists>i \<in> set [1 ..< length ?r - 1]. ?r ! i = 46"
    by (simp_all add: email_shape_def)
  from cnt have "64 \<in> set s"
    by (metis count_list_0_iff zero_neq_one)
  then have "dropWhile ?P s \<noteq> []"
    by auto
  moreover have "hd (dropWhile ?P s) = 64"
    using hd_dropWhile [OF \<open>dropWhile ?P s \<noteq> []\<close>] by simp
  ultimately have dw: "dropWhile ?P s = 64 # ?r"
    unfolding domain_part_def by (cases "dropWhile ?P s") simp_all
  have s: "s = ?l @ 64 # ?r"
    unfolding local_part_def using takeWhile_dropWhile_id [of ?P s] dw by simp
  have atl: "64 \<notin> set ?l"
    unfolding local_part_def by (auto dest: set_takeWhileD)
  have "count_list (?l @ 64 # ?r) 64 = count_list ?l 64 + 1 + count_list ?r 64"
    by simp
  then have "count_list s 64 = count_list ?l 64 + 1 + count_list ?r 64"
    using s by simp
  with cnt have atr: "64 \<notin> set ?r"
    by (simp add: count_list_0_iff)
  from ex obtain i where i: "1 \<le> i" "i < length ?r - 1" "?r ! i = 46"
    by auto
  let ?d = "take i ?r" and ?t = "drop (Suc i) ?r"
  have r: "?r = ?d @ 46 # ?t"
    using id_take_nth_drop [of i ?r] i by simp
  have "s = ?l @ [64] @ ?d @ [46] @ ?t"
    using s r by simp
  moreover have "?d \<noteq> []" "?t \<noteq> []"
    using i by auto
  moreover have "\<forall>c \<in> set (?l @ ?d @ ?t). not_space_at c"
  proof
    fix c assume c: "c \<in> set (?l @ ?d @ ?t)"
    then have lr: "c \<in> set ?l \<or> c \<in> set ?r"
      by (auto dest: in_set_takeD in_set_dropD)
    have "set ?l \<subseteq> set s"
      unfolding local_part_def by (auto dest: set_takeWhileD)
    moreover have "set ?r \<subseteq> set s"
      unfolding domain_part_def by (auto dest: in_set_dropD set_dropWhileD)
    ultimately have "c \<noteq> 64" "c \<in> set s"
      using lr atl atr by auto
    with ws show "not_space_at c"
      by (simp add: not_space_at_def)
  qed
  ultimately show ?thesis
    using l by blast
qed

lemma matches_email_shape: "matches email_pattern s \<longleftrightarrow> email_shape s"
  unfolding matches_email_pattern using shape_of_parts parts_of_shape by blast


lemma msg_email_neq:
  "msg_email \<noteq> msg_firstName" "msg_email \<noteq> msg_lastName"
  "msg_email \<noteq> msg_ticketType" "msg_email \<noteq> msg_quantity"
  using messages_distinct by auto

lemma email_error_iff:
  "msg_email \<in> set (validate b) \<longleftrightarrow> \<not> (truthy (email b) \<and> test_email (email b))"
  by (simp add: validate_filter validate_conditions_def msg_email_neq)

lemma matches_email_nonempty: "matches email_pattern s \<Longrightarrow> s \<noteq> []"
  by (auto simp: matches_email_pattern)

lemma email_string_error_iff:
  "msg_email \<in> set (validate (b\<lparr> email := JStr s \<rparr>)) \<longleftrightarrow> \<not> matches email_pattern s"
  using matches_email_nonempty [of s] by (auto simp: email_error_iff)

text \<open>
  Claim C3, as stated, fails: \<open>a@.co\<close> has exactly one \<open>@\<close>, characters that are not
  white space on both of its sides and a \<open>.\<close> in its domain part, and the validator
  rejects it.
\<close>

theorem dot_first_in_domain_rejected:
  "email_as_specified (str ''a@.co'')
   \<and> msg_email \<in> set (validate (valid_body\<lparr> email := JStr (str ''a@.co'') \<rparr>))"
  by (simp add: email_string_error_iff)
     (simp add: email_as_specified_def local_part_def domain_part_def str_def is_ws_def
        email_pattern_def not_space_at_def)

text \<open>
  Claim C3, amended. The validator accepts an email string exactly when it has one
  \<open>@\<close>, no white space, a non-empty local part, and in its domain part a \<open>.\<close> that
  is neither the first nor the last character of the domain part. It rejects \<open>foo\<close>,
  \<open>foo@\<close> and \<open>@bar.com\<close> and accepts \<open>a@b.co\<close>.
\<close>

theorem email_accepted_iff:
  "(msg_email \<notin> set (validate (b\<lparr> email := JStr s \<rparr>))) = email_shape s
   \<and> msg_email \<in> set (validate (b\<lparr> email := JStr (str ''foo'') \<rparr>))
   \<and> msg_email \<in> set (validate (b\<lparr> email := JStr (str ''foo@'') \<rparr>))
   \<and> msg_email \<in> set (validate (b\<lparr> email := JStr (str ''@bar.com'') \<rparr>))
   \<and> msg_email \<notin> set (validate (b\<lparr> email := JStr (str ''a@b.co'') \<rparr>))"
  by (simp add: email_string_error_iff matches_email_shape [symmetric])
     (simp add: str_def email_pattern_def not_space_at_def is_ws_def)

theorem email_accepted_iff_witness:
  "email_shape (str ''a@b.co'')
   \<and> msg_email \<notin> set (validate (valid_body\<lparr> email := JStr (str ''a@b.co'') \<rparr>))"
  using email_accepted_iff [where b = valid_body and s = "str ''a@b.co''"]
  by (simp add: email_shape_def local_part_def domain_part_def str_def is_ws_def)

section \<open>Names of white space\<close>

lemma validate_whitespace_name_body: "validate whitespace_name_body = []"
  by (simp add: validate_def push_def js_gt_def whitespace_name_body_def valid_body_def
        allowedTickets_def str_def email_pattern_def not_space_at_def is_ws_def)

lemma ticket_object_whitespace:
  "ticket_object whitespace_name_body =
     Inr \<lparr> o_firstName = [], o_lastName = str ''Doe'', o_email = str ''Ann@B.co'',
           o_ticketType = JStr (str ''GA Pass''), o_quantity = Num 2, o_notes = [] \<rparr>"
  by (simp add: ticket_object_def whitespace_name_body_def valid_body_def nullish_or_def
        trim_def str_def is_ws_def)

lemma create_empty_name:
  "o_firstName obj = [] \<Longrightarrow> Ticket_create obj s = Inl ValidationError"
  by (simp add: Ticket_create_def ticketSchema_def apply_setters_def string_valid_def
        trim_def Let_def split: jsval.splits)

text \<open>
  Claim C9 asks for status 400 and an error for the field. On a first name of three
  spaces the validator of \<open>server.js\<close> finds no error; the handler goes on to create
  the ticket, the schema refuses the trimmed, empty name, and the answer is status 500.
  The last validator of \<open>models/tickets.js\<close> does report the field.
\<close>

theorem whitespace_name_not_validated:
  "validate whitespace_name_body = []
   \<and> post_tickets whitespace_name_body db0
       = (\<lparr> status = 500, body = MessageBody (str ''Error saving ticket'') \<rparr>, db0)
   \<and> validate_trimmed whitespace_name_body = Inr [str ''First name is required.'']"
proof -
  have "post_tickets whitespace_name_body db0 = (error_saving, db0)"
    by (simp add: post_tickets_def validate_whitespace_name_body ticket_object_whitespace
        create_empty_name)
  moreover have "validate_trimmed whitespace_name_body = Inr [str ''First name is required.'']"
    by (simp add: validate_trimmed_def blank_def push_def whitespace_name_body_def
        valid_body_def trim_def str_def is_ws_def)
  ultimately show ?thesis
    by (simp add: validate_whitespace_name_body error_saving_def)
qed

theorem whitespace_name_not_validated_witness:
  "msg_firstName \<notin> set (validate whitespace_name_body)
   \<and> status (fst (post_tickets whitespace_name_body db0)) = 500
   \<and> snd (post_tickets whitespace_name_body db0) = db0"
  using whitespace_name_not_validated by simp

text \<open>No string that is not empty draws the error of the first name.\<close>

lemma nonempty_name_passes:
  "s \<noteq> [] \<Longrightarrow> msg_firstName \<notin> set (validate (b\<lparr> firstName := JStr s \<rparr>))"
  using messages_distinct by (auto simp: validate_filter validate_conditions_def)

section \<open>What is stored\<close>

lemma trim_ends:
  assumes "trim s \<noteq> []"
  shows "\<not> is_ws (hd (trim s))" and "\<not> is_ws (last (trim s))"
proof -
  let ?u = "dropWhile is_ws s"
  let ?v = "dropWhile is_ws (rev ?u)"
  from assms have v: "?v \<noteq> []"
    by (simp add: trim_def)
  have u: "?u \<noteq> []"
  proof
    assume "?u = []"
    then have "?v = []"
      by (simp only: rev.simps dropWhile.simps)
    with v show False ..
  qed
  have "last (trim s) = hd ?v"
    using v by (simp add: trim_def last_rev)
  with hd_dropWhile [OF v] show "\<not> is_ws (last (trim s))"
    by simp
  obtain w where "rev ?u = w @ ?v"
    by (metis takeWhile_dropWhile_id)
  with v have "last ?v = last (rev ?u)"
    by (metis last_appendR)
  then have "hd (trim s) = hd ?u"
    using v u by (simp add: trim_def hd_rev last_rev)
  with hd_dropWhile [OF u] show "\<not> is_ws (hd (trim s))"
    by simp
qed

lemma trim_trim: "trim (trim s) = trim s"
proof (cases "trim s = []")
  case True
  have "trim [] = []"
    by (simp add: trim_def)
  with True show ?thesis
    by simp
next
  case False
  from trim_ends [OF False] have 1: "dropWhile is_ws (trim s) = trim s"
    using False by (cases "trim s") simp_all
  from trim_ends [OF False] have "dropWhile is_ws (rev (trim s)) = rev (trim s)"
    using False by (cases "rev (trim s)") (simp_all add: hd_rev [symmetric])
  with 1 show ?thesis
    by (simp add: trim_def [of "trim s"])
qed

lemma call_trim_Inr: "call_trim v = Inr x \<Longrightarrow> \<exists>s. v = JStr s \<and> x = trim s"
  by (cases v) auto

lemma ticket_object_Inr:
  assumes "ticket_object b = Inr obj"
  shows "\<exists>f l e n. firstName b = JStr f \<and> lastName b = JStr l \<and> email b = JStr e
           \<and> nullish_or (notes b) (JStr []) = JStr n
           \<and> obj = \<lparr> o_firstName = trim f, o_lastName = trim l, o_email = trim e,
                     o_ticketType = ticketType b, o_quantity = Number (quantity b),
                     o_notes = trim n \<rparr>"
  using assms unfolding ticket_object_def
  by (auto split: sum.splits dest!: call_trim_Inr)

lemma number_valid_finite: "number_valid p n \<Longrightarrow> isFinite n"
  by (cases n) (auto simp: number_valid_def js_ge_def js_le_def)

lemma Ticket_create_Inr:
  assumes "Ticket_create obj s = Inr (d, s')"
  shows "\<exists>t. o_ticketType obj = JStr t
           \<and> d = \<lparr> d_id = next_id s, d_firstName = trim (o_firstName obj),
                   d_lastName = trim (o_lastName obj),
                   d_email = trim (lower_case s (o_email obj)),
                   d_ticketType = t, d_quantity = o_quantity obj,
                   d_notes = trim (o_notes obj), d_createdAt = now s \<rparr>
           \<and> isFinite (o_quantity obj)
           \<and> s' = s\<lparr> docs := docs s @ [d], next_id := next_id s + 1 \<rparr>"
  using assms unfolding Ticket_create_def
  by (auto simp: ticketSchema_def apply_setters_def Let_def
      split: jsval.splits if_splits dest: number_valid_finite)

lemma saved_normalized:
  assumes "status (fst (post_tickets b s)) = 201"
  shows "\<exists>d. docs (snd (post_tickets b s)) = docs s @ [d] \<and> normalized (lower_case s) b d"
proof -
  from assms obtain obj d s' where
    obj: "ticket_object b = Inr obj" and cr: "Ticket_create obj s = Inr (d, s')"
    and res: "snd (post_tickets b s) = s'"
    by (auto simp: post_tickets_def error_saving_def Let_def
        split: if_splits sum.splits prod.splits)
  from ticket_object_Inr [OF obj] obtain f l e n where
    b: "firstName b = JStr f" "lastName b = JStr l" "email b = JStr e"
       "nullish_or (notes b) (JStr []) = JStr n"
    and o: "obj = \<lparr> o_firstName = trim f, o_lastName = trim l, o_email = trim e,
                     o_ticketType = ticketType b, o_quantity = Number (quantity b),
                     o_notes = trim n \<rparr>"
    by blast
  from Ticket_create_Inr [OF cr] obtain t where
    t: "o_ticketType obj = JStr t"
    and d: "d = \<lparr> d_id = next_id s, d_firstName = trim (o_firstName obj),
                   d_lastName = trim (o_lastName obj),
                   d_email = trim (lower_case s (o_email obj)),
                   d_ticketType = t, d_quantity = o_quantity obj,
                   d_notes = trim (o_notes obj), d_createdAt = now s \<rparr>"
    and fin: "isFinite (o_quantity obj)"
    and s': "s' = s\<lparr> docs := docs s @ [d], next_id := next_id s + 1 \<rparr>"
    by blast
  have "normalized (lower_case s) b d"
    unfolding normalized_def using b t fin
    by (simp add: d o trim_trim)
  moreover have "docs (snd (post_tickets b s)) = docs s @ [d]"
    by (simp add: res s')
  ultimately show ?thesis
    by blast
qed

lemma trim_Nil: "trim [] = []"
  by (simp add: trim_def)

lemma allowed_nonempty: "t \<in> set allowedTickets \<Longrightarrow> t \<noteq> []"
  by (auto simp: allowedTickets_def str_def)

lemma well_formed_validate: "well_formed lc b \<Longrightarrow> validate b = []"
  unfolding well_formed_def validate_filter validate_conditions_def
  using trim_Nil matches_email_nonempty by (auto simp: matches_email_shape)

lemma well_formed_saved:
  assumes wf: "well_formed (lower_case s) b" and up: "readyState s = 1"
  shows "status (fst (post_tickets b s)) = 201"
proof -
  from wf obtain f l e t n q where
    f: "firstName b = JStr f" "trim f \<noteq> []" "length (trim f) \<le> 80"
    and l: "lastName b = JStr l" "trim l \<noteq> []" "length (trim l) \<le> 80"
    and e: "email b = JStr e" "email_shape e"
      "trim (lower_case s (trim e)) \<noteq> []" "length (trim (lower_case s (trim e))) \<le> 160"
    and t: "ticketType b = JStr t" "t \<in> set allowedTickets"
    and q: "Number (quantity b) = Num q" "1 \<le> q" "q \<le> 20"
    and n: "nullish_or (notes b) (JStr []) = JStr n" "length (trim n) \<le> 1000"
    unfolding well_formed_def by blast
  have obj: "ticket_object b =
      Inr \<lparr> o_firstName = trim f, o_lastName = trim l, o_email = trim e,
            o_ticketType = JStr t, o_quantity = Num q, o_notes = trim n \<rparr>"
    by (simp add: ticket_object_def f l e t q n)
  have "\<exists>d s'. Ticket_create \<lparr> o_firstName = trim f, o_lastName = trim l, o_email = trim e,
            o_ticketType = JStr t, o_quantity = Num q, o_notes = trim n \<rparr> s = Inr (d, s')"
    using f l e t q n up allowed_nonempty [OF t(2)]
    by (simp add: Ticket_create_def ticketSchema_def apply_setters_def string_valid_def
        number_valid_def js_ge_def js_le_def trim_trim Let_def)
  then show ?thesis
    using well_formed_validate [OF wf] obj
    by (auto simp: post_tickets_def)
qed



text \<open>
  The setters lower-case the email and no other field: a world whose case mapping
  differs on the trimmed email stores a different email.
\<close>

lemma email_follows_case_mapping:
  assumes "status (fst (post_tickets b s)) = 201" and "email b = JStr e"
  shows "d_email (last (docs (snd (post_tickets b s)))) = trim (lower_case s (trim e))"
  using saved_normalized [OF assms(1)] assms(2) by (auto simp: normalized_def)

section \<open>The two validators\<close>

lemma five_to_double: "to_double 5 = Num 5"
  by code_simp

lemma validate_typed_filter:
  "validate_typed b = map snd (filter fst
     [(\<not> truthy (firstName b) \<or> \<not> is_string (firstName b), msg_firstName),
      (\<not> truthy (lastName b) \<or> \<not> is_string (lastName b), msg_lastName),
      (\<not> truthy (email b) \<or> \<not> is_string (email b) \<or> \<not> test_email (email b), msg_email),
      (\<not> truthy (ticketType b) \<or> \<not> includes_allowed (ticketType b), msg_ticketType),
      (\<not> (Number_isFinite (quantity b) \<and> js_ge (Number (quantity b)) (Num 1)
            \<and> js_le (Number (quantity b)) (Num 20)), msg_quantity_typed)])"
  unfolding validate_typed_def by (rule pushes_filter)

lemma as_server_messages:
  "as_server msg_firstName = msg_firstName" "as_server msg_lastName = msg_lastName"
  "as_server msg_email = msg_email" "as_server msg_ticketType = msg_ticketType"
  "as_server msg_quantity_typed = msg_quantity"
  by (simp_all add: as_server_def msg_quantity_typed_def msg_firstName_def msg_lastName_def
      msg_email_def msg_ticketType_def str_def)

lemma map_selected:
  "map f (map snd (filter fst [(A, a), (B, b), (C, c), (D, d), (E, e)]))
   = map snd (filter fst [(A, f a), (B, f b), (C, f c), (D, f d), (E, f e)])"
  by simp

lemma selected_eq_iff:
  assumes "distinct [a, b, c, d, e]"
  shows "map snd (filter fst [(A, a), (B, b), (C, c), (D, d), (E, e)])
         = map snd (filter fst [(A', a), (B', b), (C', c), (D', d), (E', e)])
         \<longleftrightarrow> A = A' \<and> B = B' \<and> C = C' \<and> D = D' \<and> E = E'"
proof
  let ?L = "map snd (filter fst [(A, a), (B, b), (C, c), (D, d), (E, e)])"
  let ?R = "map snd (filter fst [(A', a), (B', b), (C', c), (D', d), (E', e)])"
  assume "?L = ?R"
  then have eq: "\<And>x. x \<in> set ?L \<longleftrightarrow> x \<in> set ?R"
    by simp
  have "a \<in> set ?L \<longleftrightarrow> A" "a \<in> set ?R \<longleftrightarrow> A'"
       "b \<in> set ?L \<longleftrightarrow> B" "b \<in> set ?R \<longleftrightarrow> B'"
       "c \<in> set ?L \<longleftrightarrow> C" "c \<in> set ?R \<longleftrightarrow> C'"
       "d \<in> set ?L \<longleftrightarrow> D" "d \<in> set ?R \<longleftrightarrow> D'"
       "e \<in> set ?L \<longleftrightarrow> E" "e \<in> set ?R \<longleftrightarrow> E'"
    using assms by auto
  with eq show "A = A' \<and> B = B' \<and> C = C' \<and> D = D' \<and> E = E'"
    by blast
next
  assume "A = A' \<and> B = B' \<and> C = C' \<and> D = D' \<and> E = E'"
  then show "map snd (filter fst [(A, a), (B, b), (C, c), (D, d), (E, e)])
         = map snd (filter fst [(A', a), (B', b), (C', c), (D', d), (E', e)])"
    by simp
qed

lemma test_email_string: "test_email v \<Longrightarrow> is_string v"
  by (cases v)
    (auto simp: email_pattern_def str_def not_space_at_def is_ws_def split: if_splits)

lemma includes_allowed_truthy: "includes_allowed v \<Longrightarrow> truthy v"
  by (cases v) (auto dest: allowed_nonempty)

lemma typed_quantity_check:
  "(Number_isFinite v \<and> js_ge (Number v) (Num 1) \<and> js_le (Number v) (Num 20))
   \<longleftrightarrow> Number_isFinite v \<and> (\<exists>q. Number v = Num q \<and> 1 \<le> q \<and> q \<le> 20)"
  by (cases v; cases "Number v") (auto simp: js_ge_def js_le_def)

text \<open>Up to the text of the message of the quantity, when the two lists are the same.\<close>

lemma validators_agree_iff:
  "map as_server (validate_typed b) = validate b
   \<longleftrightarrow> (truthy (firstName b) \<longrightarrow> is_string (firstName b))
       \<and> (truthy (lastName b) \<longrightarrow> is_string (lastName b))
       \<and> (msg_quantity \<notin> set (validate b) \<longrightarrow> Number_isFinite (quantity b))"
  unfolding validate_typed_filter map_selected as_server_messages validate_filter
    validate_conditions_def selected_eq_iff [OF messages_distinct] typed_quantity_check
  using test_email_string [of "email b"] includes_allowed_truthy [of "ticketType b"]
  by (auto simp: msg_quantity_neq)

lemma selected_Nil_iff:
  "map snd (filter fst [(A, a), (B, b), (C, c), (D, d), (E, e)]) = []
   \<longleftrightarrow> \<not> A \<and> \<not> B \<and> \<not> C \<and> \<not> D \<and> \<not> E"
  by auto

lemma typed_accepts_subset: "validate_typed b = [] \<Longrightarrow> validate b = []"
  unfolding validate_typed_filter validate_filter validate_conditions_def typed_quantity_check
    selected_Nil_iff
  by blast

lemma quantity_typed_error_iff:
  "msg_quantity_typed \<in> set (validate_typed b)
   \<longleftrightarrow> \<not> (Number_isFinite (quantity b) \<and> js_ge (Number (quantity b)) (Num 1)
            \<and> js_le (Number (quantity b)) (Num 20))"
  unfolding validate_typed_filter
  by (auto simp: msg_quantity_typed_def msg_firstName_def msg_lastName_def msg_email_def
      msg_ticketType_def str_def)

lemma as_server_id: "msg_quantity_typed \<notin> set xs \<Longrightarrow> map as_server xs = xs"
  by (induction xs) (auto simp: as_server_def)

lemma validate_typed_incomplete:
  "validate_typed incomplete_body = [msg_firstName, msg_email, msg_quantity_typed]"
  by (simp add: validate_typed_def push_def js_ge_def js_le_def incomplete_body_def
      allowedTickets_def str_def email_pattern_def not_space_at_def is_ws_def)

lemma validate_typed_valid_body: "validate_typed valid_body = []"
  by (simp add: validate_typed_def push_def js_ge_def js_le_def valid_body_def
      allowedTickets_def str_def email_pattern_def not_space_at_def is_ws_def)

text \<open>
  Claim C10, as stated, fails: with the quantity given as the string \<open>5\<close> the validator
  of \<open>server.js\<close> accepts the submission and the one of \<open>models/tickets.js\<close> rejects
  it.
\<close>

theorem string_quantity_splits_validators:
  "validate string_quantity_body = []
   \<and> validate_typed string_quantity_body = [msg_quantity_typed]"
  by (simp add: validate_def validate_typed_def push_def js_gt_def js_ge_def js_le_def
      string_quantity_body_def valid_body_def allowedTickets_def str_def email_pattern_def
      not_space_at_def is_ws_def StringToNumber_def trim_def decimal_literal_def
      unsigned_decimal_def is_digit_def digit_val_def exponent_part_def scale10_def
      five_to_double Let_def)

text \<open>
  Claim C10, amended. On every submission in which the first and the last name are each
  a string or falsy, and the quantity is a finite number or is rejected by \<open>server.js\<close>,
  the two validators report the same fields in the same order: the lists of errors are
  the same up to the text of the message of the quantity, and they are the same list
  when the quantity passes. What the validator of \<open>models/tickets.js\<close> accepts, the one
  of \<open>server.js\<close> accepts.
\<close>

theorem validators_agree_when_typed:
  "((truthy (firstName b) \<longrightarrow> is_string (firstName b))
    \<and> (truthy (lastName b) \<longrightarrow> is_string (lastName b))
    \<and> (msg_quantity \<notin> set (validate b) \<longrightarrow> Number_isFinite (quantity b))
    \<longrightarrow> map as_server (validate_typed b) = validate b
        \<and> (msg_quantity \<notin> set (validate b) \<longrightarrow> validate_typed b = validate b))
   \<and> (validate_typed b = [] \<longrightarrow> validate b = [])"
proof (intro conjI impI)
  assume h: "(truthy (firstName b) \<longrightarrow> is_string (firstName b))
    \<and> (truthy (lastName b) \<longrightarrow> is_string (lastName b))
    \<and> (msg_quantity \<notin> set (validate b) \<longrightarrow> Number_isFinite (quantity b))"
  then show eq: "map as_server (validate_typed b) = validate b"
    by (simp only: validators_agree_iff)
  assume ok: "msg_quantity \<notin> set (validate b)"
  with h have "Number_isFinite (quantity b)"
    by blast
  with ok have "msg_quantity_typed \<notin> set (validate_typed b)"
    unfolding quantity_typed_error_iff quantity_error_iff typed_quantity_check by blast
  with eq show "validate_typed b = validate b"
    by (simp add: as_server_id)
next
  assume "validate_typed b = []"
  then show "validate b = []"
    by (rule typed_accepts_subset)
qed

theorem validators_agree_when_typed_witness:
  "map as_server (validate_typed incomplete_body) = validate incomplete_body
   \<and> validate incomplete_body = [msg_firstName, msg_email, msg_quantity]
   \<and> validate_typed incomplete_body = [msg_firstName, msg_email, msg_quantity_typed]
   \<and> validate_typed valid_body = validate valid_body
   \<and> validate_typed valid_body = [] \<and> validate valid_body = []"
proof -
  have i: "(truthy (firstName incomplete_body) \<longrightarrow> is_string (firstName incomplete_body))
      \<and> (truthy (lastName incomplete_body) \<longrightarrow> is_string (lastName incomplete_body))
      \<and> (msg_quantity \<notin> set (validate incomplete_body)
           \<longrightarrow> Number_isFinite (quantity incomplete_body))"
    by (simp add: incomplete_body_def)
  have v: "(truthy (firstName valid_body) \<longrightarrow> is_string (firstName valid_body))
      \<and> (truthy (lastName valid_body) \<longrightarrow> is_string (lastName valid_body))
      \<and> (msg_quantity \<notin> set (validate valid_body) \<longrightarrow> Number_isFinite (quantity valid_body))"
    by (simp add: valid_body_def)
  from validators_agree_when_typed [of incomplete_body] i
  have 1: "map as_server (validate_typed incomplete_body) = validate incomplete_body"
    by blast
  from validators_agree_when_typed [of valid_body] v validate_typed_valid_body
  have 2: "validate valid_body = []"
    by blast
  from 1 2 show ?thesis
    by (simp add: validate_incomplete validate_typed_incomplete validate_typed_valid_body)
qed

section \<open>The answer to an invalid submission\<close>

lemma falsy_iff: "falsy v \<longleftrightarrow> \<not> truthy v"
  by (cases v rule: truthy.cases) (auto simp: falsy_def)

lemma present_name_truthy:
  "falsy v \<or> present_name v \<Longrightarrow> present_name v \<longleftrightarrow> truthy v"
  using trim_Nil by (auto simp: falsy_iff present_name_def)

lemma email_rule: "(\<exists>s. v = JStr s \<and> email_shape s) \<longleftrightarrow> truthy v \<and> test_email v"
proof (cases "is_string v")
  case True
  then obtain s where "v = JStr s"
    by (cases v) auto
  then show ?thesis
    using matches_email_nonempty [of s] by (auto simp: matches_email_shape)
next
  case False
  then show ?thesis
    using test_email_string [of v] by auto
qed

lemma ticketType_rule: "(\<exists>s. v = JStr s \<and> s \<in> set allowedTickets) \<longleftrightarrow> includes_allowed v"
  by (cases v) auto

lemma enforced_rules_conditions:
  assumes "falsy (firstName b) \<or> present_name (firstName b)"
    and "falsy (lastName b) \<or> present_name (lastName b)"
  shows "enforced_rules b = validate_conditions b"
  unfolding enforced_rules_def validate_conditions_def
  by (simp only: present_name_truthy [OF assms(1)] present_name_truthy [OF assms(2)]
      email_rule ticketType_rule)

lemma fractional_body_saved: "status (fst (post_tickets fractional_body db0)) = 201"
proof -
  have "email_shape (str ''Ann@B.co'')"
    by (simp add: matches_email_shape [symmetric] email_pattern_def str_def
        not_space_at_def is_ws_def)
  then have "firstName fractional_body = JStr (str '' Ann'')
      \<and> trim (str '' Ann'') \<noteq> [] \<and> length (trim (str '' Ann'')) \<le> 80
      \<and> lastName fractional_body = JStr (str ''Doe '')
      \<and> trim (str ''Doe '') \<noteq> [] \<and> length (trim (str ''Doe '')) \<le> 80
      \<and> email fractional_body = JStr (str ''Ann@B.co'') \<and> email_shape (str ''Ann@B.co'')
      \<and> trim (lower_case db0 (trim (str ''Ann@B.co''))) \<noteq> []
      \<and> length (trim (lower_case db0 (trim (str ''Ann@B.co'')))) \<le> 160
      \<and> ticketType fractional_body = JStr (str ''GA Pass'')
      \<and> str ''GA Pass'' \<in> set allowedTickets
      \<and> Number (quantity fractional_body) = Num (3 / 2)
      \<and> (1 :: rat) \<le> 3 / 2 \<and> (3 / 2 :: rat) \<le> 20
      \<and> nullish_or (notes fractional_body) (JStr []) = JStr []
      \<and> length (trim []) \<le> 1000"
    by (simp add: fractional_body_def valid_body_def db0_def lower_ascii_def nullish_or_def
        trim_def is_ws_def allowedTickets_def str_def)
  then have "well_formed (lower_case db0) fractional_body"
    unfolding well_formed_def by blast
  then show ?thesis
    by (rule well_formed_saved) (simp add: db0_def)
qed

text \<open>
  Claim C1, as stated, fails: a quantity of one and a half is no integer from 1 to 20, so
  the field is invalid by the data model, and the submission that carries it is answered
  with status 201.
\<close>

theorem invalid_quantity_saved:
  "\<not> submission_as_specified fractional_body
   \<and> status (fst (post_tickets fractional_body db0)) = 201"
proof -
  have "\<not> quantity_as_specified (JNum (Num (3 / 2)))"
    unfolding quantity_as_specified_def using three_halves_not_integer
    by (metis Ints_of_int jsnum.inject jsval.inject(2))
  then have "\<not> submission_as_specified fractional_body"
    by (simp add: submission_as_specified_def fractional_body_def)
  with fractional_body_saved show ?thesis
    by blast
qed

text \<open>
  Claim C1, amended. Take a submission of scalar fields whose first and last name are
  each falsy or a text that is not empty once trimmed. If one of the fields firstName,
  lastName, email, ticketType, quantity is missing or violates the rule that the
  validator enforces on it, the answer has status 400 and a body of a message and a list
  of errors, and the store is left as it was. The list holds the message of each
  violated rule once, and of no other, in the order firstName, lastName, email,
  ticketType, quantity.
\<close>

theorem validation_errors_itemized:
  assumes "falsy (firstName b) \<or> present_name (firstName b)"
    and "falsy (lastName b) \<or> present_name (lastName b)"
    and "missing (firstName b) \<or> missing (lastName b) \<or> missing (email b)
         \<or> missing (ticketType b) \<or> missing (quantity b)
         \<or> (\<exists>r \<in> set (enforced_rules b). fst r)"
  shows "\<exists>errors.
           post_tickets b s =
             (\<lparr> status = 400, body = ErrorsBody (str ''Validation failed'') errors \<rparr>, s)
           \<and> errors \<noteq> []
           \<and> errors = map snd (filter fst (enforced_rules b))
           \<and> subseq errors
                [msg_firstName, msg_lastName, msg_email, msg_ticketType, msg_quantity]
           \<and> distinct errors
           \<and> (missing (firstName b) \<longrightarrow> msg_firstName \<in> set errors)
           \<and> (missing (lastName b) \<longrightarrow> msg_lastName \<in> set errors)
           \<and> (missing (email b) \<longrightarrow> msg_email \<in> set errors)
           \<and> (missing (ticketType b) \<longrightarrow> msg_ticketType \<in> set errors)
           \<and> (missing (quantity b) \<longrightarrow> msg_quantity \<in> set errors)"
proof -
  have rules: "enforced_rules b = validate_conditions b"
    using assms(1,2) by (rule enforced_rules_conditions)
  have v: "validate b = map snd (filter fst (enforced_rules b))"
    by (simp only: validate_filter rules)
  have m1: "missing (firstName b) \<Longrightarrow> msg_firstName \<in> set (validate b)"
    by (auto simp: missing_def validate_filter validate_conditions_def)
  have m2: "missing (lastName b) \<Longrightarrow> msg_lastName \<in> set (validate b)"
    by (auto simp: missing_def validate_filter validate_conditions_def)
  have m3: "missing (email b) \<Longrightarrow> msg_email \<in> set (validate b)"
    by (auto simp: missing_def validate_filter validate_conditions_def)
  have m4: "missing (ticketType b) \<Longrightarrow> msg_ticketType \<in> set (validate b)"
    by (auto simp: missing_def validate_filter validate_conditions_def)
  have m5: "missing (quantity b) \<Longrightarrow> msg_quantity \<in> set (validate b)"
    by (auto simp: missing_def validate_filter validate_conditions_def)
  have "(\<exists>r \<in> set (enforced_rules b). fst r) \<Longrightarrow> validate b \<noteq> []"
    by (simp add: v filter_empty_conv)
  with assms(3) m1 m2 m3 m4 m5 have ne: "validate b \<noteq> []"
    by (metis empty_iff list.set(1))
  then have resp: "post_tickets b s =
      (\<lparr> status = 400, body = ErrorsBody (str ''Validation failed'') (validate b) \<rparr>, s)"
    by (simp add: post_tickets_def)
  show ?thesis
  proof (intro exI [of _ "validate b"] conjI impI)
    show "post_tickets b s =
      (\<lparr> status = 400, body = ErrorsBody (str ''Validation failed'') (validate b) \<rparr>, s)"
      by (rule resp)
    show "validate b \<noteq> []" by (rule ne)
    show "validate b = map snd (filter fst (enforced_rules b))" by (rule v)
    show "subseq (validate b)
        [msg_firstName, msg_lastName, msg_email, msg_ticketType, msg_quantity]"
      by (rule validate_subseq)
    show "distinct (validate b)" by (rule validate_distinct)
  qed (erule m1 m2 m3 m4 m5)+
qed

theorem validation_errors_itemized_witness:
  "falsy (firstName incomplete_body) \<and> present_name (lastName incomplete_body)
   \<and> missing (firstName incomplete_body)
   \<and> map snd (filter fst (enforced_rules incomplete_body))
       = [msg_firstName, msg_email, msg_quantity]
   \<and> post_tickets incomplete_body db0 =
       (\<lparr> status = 400,
          body = ErrorsBody (str ''Validation failed'')
                   [msg_firstName, msg_email, msg_quantity] \<rparr>,
        db0)"
proof -
  have f: "falsy (firstName incomplete_body)"
    by (simp add: incomplete_body_def falsy_def)
  have l: "present_name (lastName incomplete_body)"
    by (simp add: incomplete_body_def present_name_def trim_def str_def is_ws_def)
  have m: "missing (firstName incomplete_body)"
    by (simp add: incomplete_body_def missing_def)
  from validation_errors_itemized [of incomplete_body db0] f l m
  obtain errors where e: "post_tickets incomplete_body db0 =
      (\<lparr> status = 400, body = ErrorsBody (str ''Validation failed'') errors \<rparr>, db0)"
    "errors = map snd (filter fst (enforced_rules incomplete_body))"
    by blast
  have "post_tickets incomplete_body db0 =
      (\<lparr> status = 400, body = ErrorsBody (str ''Validation failed'')
          [msg_firstName, msg_email, msg_quantity] \<rparr>, db0)"
    by (simp add: post_tickets_def validate_incomplete)
  with e have "errors = [msg_firstName, msg_email, msg_quantity]"
    by simp
  with e f l m show ?thesis
    by simp
qed

end
